theory Spec2Isabelle
  imports Complex_Main "HOL-Library.Char_ord" "HOL-Library.List_Lexorder"
    "HOL-Library.Product_Lexorder"
begin

section \<open>The flight table\<close>

text \<open>
  \<^verbatim>\<open>flight_data\<close> is the frame that \<^verbatim>\<open>pd.read_csv\<close> builds: an ordered sequence of
  rows. Only the columns that \<^verbatim>\<open>main.py\<close> reads are kept. An empty CSV cell is a
  missing value (NaN) in pandas, here \<open>None\<close>. The numeric columns are float64 in
  pandas; they are taken as exact real numbers, so rounding is not part of this model.
\<close>

record flight =
  Year :: "int option"
  Month :: "int option"
  Reporting_Airline :: "string option"
  OriginState :: "string option"
  DestState :: "string option"
  CancellationCode :: "string option"
  Flights :: "real option"
  AirTime :: "real option"
  DivAirportLandings :: "real option"
  CarrierDelay :: "real option"
  WeatherDelay :: "real option"
  NASDelay :: "real option"
  SecurityDelay :: "real option"
  LateAircraftDelay :: "real option"

type_synonym frame = "flight list"

section \<open>The pandas operations used by the program\<close>

subsection \<open>Boolean indexing: \<^verbatim>\<open>df[mask]\<close>\<close>

text \<open>
  \<^verbatim>\<open>df[col == v]\<close> is two steps: the comparison builds a boolean series, one entry
  per row, and indexing by it keeps the rows whose entry is true, in their order.
\<close>

definition col_mask :: "('r \<Rightarrow> bool) \<Rightarrow> 'r list \<Rightarrow> bool list" where
  "col_mask p df = map p df"

fun bool_index :: "'r list \<Rightarrow> bool list \<Rightarrow> 'r list" where
  "bool_index (r # df) (b # bs) = (if b then r # bool_index df bs else bool_index df bs)"
| "bool_index _ _ = []"

subsection \<open>\<^verbatim>\<open>df.groupby(keys)\<close>\<close>

text \<open>
  With its defaults (\<^verbatim>\<open>sort=True\<close>, \<^verbatim>\<open>dropna=True\<close>) \<^verbatim>\<open>groupby\<close> leaves out every row
  with a missing value in a key column and lists the groups by ascending key; a key
  made of two columns is a pair, compared lexicographically. Each group holds its rows
  in frame order. The groups are built row by row in a key-ordered association list.
\<close>

fun add_row :: "'k::linorder \<Rightarrow> 'r \<Rightarrow> ('k \<times> 'r list) list \<Rightarrow> ('k \<times> 'r list) list" where
  "add_row k r [] = [(k, [r])]"
| "add_row k r ((k', rs) # gs) =
     (if k = k' then (k', rs @ [r]) # gs
      else if k < k' then (k, [r]) # (k', rs) # gs
      else (k', rs) # add_row k r gs)"

definition group_step :: "('r \<Rightarrow> 'k::linorder option) \<Rightarrow> ('k \<times> 'r list) list \<Rightarrow> 'r
    \<Rightarrow> ('k \<times> 'r list) list" where
  "group_step key gs r = (case key r of None \<Rightarrow> gs | Some k \<Rightarrow> add_row k r gs)"

definition groupby :: "('r \<Rightarrow> 'k::linorder option) \<Rightarrow> 'r list \<Rightarrow> ('k \<times> 'r list) list" where
  "groupby key df = foldl (group_step key) [] df"

text \<open>The key of a two-column \<^verbatim>\<open>groupby\<close>: missing as soon as one column is.\<close>

definition key2 :: "('r \<Rightarrow> 'a option) \<Rightarrow> ('r \<Rightarrow> 'b option) \<Rightarrow> 'r \<Rightarrow> ('a \<times> 'b) option" where
  "key2 f g r = (case f r of None \<Rightarrow> None
                 | Some a \<Rightarrow> (case g r of None \<Rightarrow> None | Some b \<Rightarrow> Some (a, b)))"

subsection \<open>Reductions of one column of a group\<close>

text \<open>
  \<^verbatim>\<open>sum\<close> and \<^verbatim>\<open>mean\<close> skip missing values. The sum of no value is 0; the mean of
  no value is missing.
\<close>

definition present :: "('r \<Rightarrow> 'v option) \<Rightarrow> 'r list \<Rightarrow> 'v list" where
  "present col rs = List.map_filter col rs"

definition col_sum :: "('r \<Rightarrow> real option) \<Rightarrow> 'r list \<Rightarrow> real" where
  "col_sum col rs = sum_list (present col rs)"

definition col_mean :: "('r \<Rightarrow> real option) \<Rightarrow> 'r list \<Rightarrow> real option" where
  "col_mean col rs =
     (let vs = present col rs
      in if vs = [] then None else Some (sum_list vs / real (length vs)))"

text \<open>
  \<^verbatim>\<open>groupby(keys)[col].sum().reset_index()\<close>: one row per group, the key columns
  followed by the reduced column.
\<close>

definition agg :: "('r list \<Rightarrow> 'v) \<Rightarrow> ('k \<times> 'r list) list \<Rightarrow> ('k \<times> 'v) list" where
  "agg f gs = map (\<lambda>(k, rs). (k, f rs)) gs"

text \<open>\<^verbatim>\<open>series.max()\<close>: missing on an empty series.\<close>

fun series_max :: "real list \<Rightarrow> real option" where
  "series_max [] = None"
| "series_max (v # vs) = Some (fold max vs v)"

section \<open>The two aggregators\<close>

type_synonym 'k sum_table = "('k \<times> real) list"
type_synonym 'k mean_table = "('k \<times> real option) list"

definition performance :: "frame \<Rightarrow>
    (int \<times> string) sum_table \<times> (int \<times> string) mean_table \<times> frame \<times> string sum_table \<times> (string \<times> string) sum_table" where
  "performance df =
     (let barchart_data = agg (col_sum Flights) (groupby (key2 Month CancellationCode) df);
          linechart_data = agg (col_mean AirTime) (groupby (key2 Month Reporting_Airline) df);
          diversion_data = bool_index df (col_mask (\<lambda>r. DivAirportLandings r \<noteq> Some 0) df);
          mapchart_data = agg (col_sum Flights) (groupby OriginState df);
          treemap_data = agg (col_sum Flights) (groupby (key2 DestState Reporting_Airline) df)
      in (barchart_data, linechart_data, diversion_data, mapchart_data, treemap_data))"

definition delays :: "frame \<Rightarrow>
    (int \<times> string) mean_table \<times> (int \<times> string) mean_table \<times> (int \<times> string) mean_table \<times>
    (int \<times> string) mean_table \<times> (int \<times> string) mean_table" where
  "delays df =
     (let carrier = agg (col_mean CarrierDelay) (groupby (key2 Month Reporting_Airline) df);
          weather = agg (col_mean WeatherDelay) (groupby (key2 Month Reporting_Airline) df);
          NAS = agg (col_mean NASDelay) (groupby (key2 Month Reporting_Airline) df);
          security = agg (col_mean SecurityDelay) (groupby (key2 Month Reporting_Airline) df);
          delay = agg (col_mean LateAircraftDelay) (groupby (key2 Month Reporting_Airline) df)
      in (carrier, weather, NAS, security, delay))"

section \<open>Chart objects\<close>

text \<open>
  The plotting library is outside the program. A figure is kept as the record of the
  call that built it: its kind, the table it was given, its named arguments, its title.
\<close>

datatype chart_kind = Bar | Line | Pie | Choropleth | Treemap

datatype plot_data =
    FlightRows frame
  | ByMonthCode "(int \<times> string) sum_table"
  | ByMonthAirline "(int \<times> string) mean_table"
  | ByState "string sum_table"
  | ByStateAirline "(string \<times> string) sum_table"

record figure =
  fig_kind :: chart_kind
  fig_data :: plot_data
  fig_args :: "(string \<times> string list) list"
  range_color :: "(real \<times> real option) option"
  fig_title :: string
  geo_scope :: "string option"

datatype component = Graph figure

definition px_bar :: "plot_data \<Rightarrow> string \<Rightarrow> string \<Rightarrow> string \<Rightarrow> string \<Rightarrow> figure" where
  "px_bar d x y color title =
     \<lparr>fig_kind = Bar, fig_data = d,
      fig_args = [(''x'', [x]), (''y'', [y]), (''color'', [color])],
      range_color = None, fig_title = title, geo_scope = None\<rparr>"

definition px_line :: "plot_data \<Rightarrow> string \<Rightarrow> string \<Rightarrow> string \<Rightarrow> string \<Rightarrow> figure" where
  "px_line d x y color title =
     \<lparr>fig_kind = Line, fig_data = d,
      fig_args = [(''x'', [x]), (''y'', [y]), (''color'', [color])],
      range_color = None, fig_title = title, geo_scope = None\<rparr>"

definition px_pie :: "plot_data \<Rightarrow> string \<Rightarrow> string \<Rightarrow> string \<Rightarrow> figure" where
  "px_pie d vals names title =
     \<lparr>fig_kind = Pie, fig_data = d,
      fig_args = [(''values'', [vals]), (''names'', [names])],
      range_color = None, fig_title = title, geo_scope = None\<rparr>"

definition px_choropleth :: "plot_data \<Rightarrow> string \<Rightarrow> string \<Rightarrow> string list \<Rightarrow> string \<Rightarrow> string
    \<Rightarrow> real \<times> real option \<Rightarrow> figure" where
  "px_choropleth d locations color hover_data locationmode color_continuous_scale rc =
     \<lparr>fig_kind = Choropleth, fig_data = d,
      fig_args = [(''locations'', [locations]), (''color'', [color]),
                  (''hover_data'', hover_data), (''locationmode'', [locationmode]),
                  (''color_continuous_scale'', [color_continuous_scale])],
      range_color = Some rc, fig_title = [], geo_scope = None\<rparr>"

definition update_layout :: "figure \<Rightarrow> string \<Rightarrow> string \<Rightarrow> figure" where
  "update_layout fig title_text scope = fig\<lparr>fig_title := title_text, geo_scope := Some scope\<rparr>"

definition px_treemap :: "plot_data \<Rightarrow> string list \<Rightarrow> string \<Rightarrow> string \<Rightarrow> string \<Rightarrow> string
    \<Rightarrow> figure" where
  "px_treemap d path vals color color_continuous_scale title =
     \<lparr>fig_kind = Treemap, fig_data = d,
      fig_args = [(''path'', path), (''values'', [vals]), (''color'', [color]),
                  (''color_continuous_scale'', [color_continuous_scale])],
      range_color = None, fig_title = title, geo_scope = None\<rparr>"

section \<open>The callback\<close>

text \<open>
  The two dropdowns give \<^verbatim>\<open>None\<close> while nothing is chosen, else the chosen option's
  value: a string for the report type, an integer for the year. \<^verbatim>\<open>int(None)\<close> raises
  \<^verbatim>\<open>TypeError\<close>; on an integer \<^verbatim>\<open>int\<close> is the identity.
\<close>

datatype py_error = TypeError

definition py_int :: "int option \<Rightarrow> py_error + int" where
  "py_int v = (case v of None \<Rightarrow> Inl TypeError | Some i \<Rightarrow> Inr i)"

text \<open>Line 121, the year-filtered view.\<close>

definition select_data :: "frame \<Rightarrow> int option \<Rightarrow> py_error + frame" where
  "select_data flight_data year =
     (case py_int year of
        Inl e \<Rightarrow> Inl e
      | Inr y \<Rightarrow> Inr (bool_index flight_data (col_mask (\<lambda>r. Year r = Some y) flight_data)))"

definition performance_report :: "frame \<Rightarrow> component list" where
  "performance_report df =
     (case performance df of
        (barchart_data, linechart_data, diversion_data, mapchart_data, treemap_data) \<Rightarrow>
        (let barchart = px_bar (ByMonthCode barchart_data) ''Month'' ''Flights''
               ''CancellationCode'' ''Monthly Flight Cancellation'';
             linechart = px_line (ByMonthAirline linechart_data) ''Month'' ''AirTime''
               ''Reporting_Airline'' ''Average monthly flight time (minutes) by airline'';
             piechart = px_pie (FlightRows diversion_data) ''Flights'' ''Reporting_Airline''
               ''% of flights by reporting airline'';
             mapchart = px_choropleth (ByState mapchart_data) ''OriginState'' ''Flights''
               [''OriginState'', ''Flights''] ''USA-states'' ''GnBu''
               (0, series_max (map snd mapchart_data));
             mapchart = update_layout mapchart ''Number of flights from origin state'' ''usa'';
             treemap = px_treemap (ByStateAirline treemap_data)
               [''DestState'', ''Reporting_Airline''] ''Flights'' ''Flights'' ''YlGnBu''
               ''Flight count by airline to destination state''
         in [Graph treemap, Graph piechart, Graph mapchart, Graph barchart, Graph linechart]))"

definition delay_report :: "frame \<Rightarrow> component list" where
  "delay_report df =
     (case delays df of
        (carrier, weather, NAS, security, delay) \<Rightarrow>
        (let carriergraph = px_line (ByMonthAirline carrier) ''Month'' ''CarrierDelay''
               ''Reporting_Airline'' ''Average carrrier delay time (minutes) by airline'';
             weathergraph = px_line (ByMonthAirline weather) ''Month'' ''WeatherDelay''
               ''Reporting_Airline'' ''Average weather delay time (minutes) by airline'';
             NASgraph = px_line (ByMonthAirline NAS) ''Month'' ''NASDelay''
               ''Reporting_Airline'' ''Average NAS delay time (minutes) by airline'';
             securitygraph = px_line (ByMonthAirline security) ''Month'' ''SecurityDelay''
               ''Reporting_Airline'' ''Average security delay time (minutes) by airline'';
             delaygraph = px_line (ByMonthAirline delay) ''Month'' ''LateAircraftDelay''
               ''Reporting_Airline'' ''Average late aircraft delay time (minutes) by airline''
         in [Graph carriergraph, Graph weathergraph, Graph NASgraph, Graph securitygraph,
             Graph delaygraph]))"

text \<open>
  \<^verbatim>\<open>make_graph\<close>, with the global \<^verbatim>\<open>flight_data\<close> as its first argument. The two
  branches of its \<^verbatim>\<open>if\<close> are \<open>performance_report\<close> and \<open>delay_report\<close>. An exception
  leaves the callback as \<open>Inl\<close>.
\<close>

definition make_graph :: "frame \<Rightarrow> string option \<Rightarrow> int option \<Rightarrow> 'c \<Rightarrow> 'c \<Rightarrow> 'c \<Rightarrow> 'c \<Rightarrow> 'c
    \<Rightarrow> py_error + component list" where
  "make_graph flight_data chart year children1 children2 c3 c4 c5 =
     (case select_data flight_data year of
        Inl e \<Rightarrow> Inl e
      | Inr df \<Rightarrow>
          if chart = Some ''OPT1'' then Inr (performance_report df)
          else Inr (delay_report df))"

section \<open>The tables as the specification words them\<close>

text \<open>
  "Column \<open>col\<close> summed by \<open>key\<close>": the keys that occur, in ascending order, each with
  the sum of \<open>col\<close> over the rows that carry it. These definitions do not follow the
  row-by-row construction of \<open>groupby\<close>; the aggregators are compared with them.
\<close>

definition group_keys :: "('r \<Rightarrow> 'k::linorder option) \<Rightarrow> 'r list \<Rightarrow> 'k list" where
  "group_keys key df = sorted_list_of_set (set (present key df))"

definition group_rows :: "('r \<Rightarrow> 'k option) \<Rightarrow> 'k \<Rightarrow> 'r list \<Rightarrow> 'r list" where
  "group_rows key k df = filter (\<lambda>r. key r = Some k) df"

definition summed_by :: "('r \<Rightarrow> 'k::linorder option) \<Rightarrow> ('r \<Rightarrow> real option) \<Rightarrow> 'r list
    \<Rightarrow> ('k \<times> real) list" where
  "summed_by key col df = map (\<lambda>k. (k, col_sum col (group_rows key k df))) (group_keys key df)"

definition mean_by :: "('r \<Rightarrow> 'k::linorder option) \<Rightarrow> ('r \<Rightarrow> real option) \<Rightarrow> 'r list
    \<Rightarrow> ('k \<times> real option) list" where
  "mean_by key col df = map (\<lambda>k. (k, col_mean col (group_rows key k df))) (group_keys key df)"

text \<open>
  A table has exactly one row for each key value that a row of \<open>df\<close> carries with no
  key column missing, and no other row.
\<close>

definition one_row_per_key :: "('r \<Rightarrow> 'k option) \<Rightarrow> 'r list \<Rightarrow> ('k \<times> 'v) list \<Rightarrow> bool" where
  "one_row_per_key key df t \<longleftrightarrow> distinct (map fst t) \<and> set (map fst t) = set (present key df)"





section \<open>A call and the frame it was given\<close>



section \<open>A small dataset\<close>

definition blank_row :: flight where
  "blank_row = \<lparr>Year = None, Month = None, Reporting_Airline = None, OriginState = None,
     DestState = None, CancellationCode = None, Flights = None, AirTime = None,
     DivAirportLandings = None, CarrierDelay = None, WeatherDelay = None, NASDelay = None,
     SecurityDelay = None, LateAircraftDelay = None\<rparr>"

text \<open>A flown flight, a cancelled one, a diverted one with two recorded delays.\<close>

definition flown :: flight where
  "flown = blank_row\<lparr>Year := Some 2005, Month := Some 1, Reporting_Airline := Some ''AA'',
     OriginState := Some ''CA'', DestState := Some ''NY'', Flights := Some 1,
     AirTime := Some 100, DivAirportLandings := Some 0, CarrierDelay := Some 10\<rparr>"

definition cancelled :: flight where
  "cancelled = blank_row\<lparr>Year := Some 2005, Month := Some 1, Reporting_Airline := Some ''AA'',
     OriginState := Some ''TX'', DestState := Some ''NY'', CancellationCode := Some ''B'',
     Flights := Some 1, DivAirportLandings := Some 0\<rparr>"

definition diverted :: flight where
  "diverted = blank_row\<lparr>Year := Some 2005, Month := Some 2, Reporting_Airline := Some ''DL'',
     OriginState := Some ''CA'', DestState := Some ''FL'', Flights := Some 1,
     AirTime := Some 50, DivAirportLandings := Some 1, CarrierDelay := Some 30,
     WeatherDelay := Some 5\<rparr>"

definition later_year :: flight where
  "later_year = flown\<lparr>Year := Some 2006, AirTime := Some 120\<rparr>"

definition sample_data :: frame where
  "sample_data = [flown, later_year, cancelled, diverted]"

definition sample_view :: frame where
  "sample_view = [flown, cancelled, diverted]"


section \<open>Boolean indexing\<close>

lemma bool_index_mask: "bool_index df (col_mask p df) = filter p df"
  by (induction df) (simp_all add: col_mask_def)

section \<open>The groups built by \<open>groupby\<close>\<close>

lemma add_row_keys: "set (map fst (add_row k r gs)) = insert k (set (map fst gs))"
  by (induction k r gs rule: add_row.induct) auto

lemma add_row_sorted:
  "sorted_wrt (<) (map fst gs) \<Longrightarrow> sorted_wrt (<) (map fst (add_row k r gs))"
proof (induction gs)
  case Nil
  then show ?case by simp
next
  case (Cons g gs)
  obtain k' rs where g: "g = (k', rs)" by (cases g)
  from Cons.prems have tl: "sorted_wrt (<) (map fst gs)"
    and hd: "\<forall>x\<in>set (map fst gs). k' < x"
    by (simp_all add: g)
  show ?case
  proof (cases "k = k'")
    case True
    with Cons.prems show ?thesis by (simp add: g)
  next
    case ne: False
    show ?thesis
    proof (cases "k < k'")
      case True
      with Cons.prems ne show ?thesis by (auto simp: g)
    next
      case False
      with ne have "k' < k" by simp
      with hd have "\<forall>x\<in>set (map fst (add_row k r gs)). k' < x"
        unfolding add_row_keys by simp
      with Cons.IH[OF tl] ne False show ?thesis
        by (simp add: g)
    qed
  qed
qed

lemma map_of_below_keys:
  "\<forall>x\<in>set (map fst gs). k < x \<Longrightarrow> map_of gs (k::'k::linorder) = None"
  by (induction gs) auto

lemma add_row_map_of:
  "sorted_wrt (<) (map fst gs) \<Longrightarrow>
   map_of (add_row k r gs) =
     (map_of gs)(k \<mapsto> (case map_of gs k of None \<Rightarrow> [r] | Some rs \<Rightarrow> rs @ [r]))"
proof (induction gs)
  case Nil
  then show ?case by simp
next
  case (Cons g gs)
  obtain k' rs where g: "g = (k', rs)" by (cases g)
  from Cons.prems have tl: "sorted_wrt (<) (map fst gs)"
    and hd: "\<forall>x\<in>set (map fst gs). k' < x"
    by (simp_all add: g)
  show ?case
  proof (cases "k = k'")
    case True
    then show ?thesis by (auto simp: g)
  next
    case ne: False
    show ?thesis
    proof (cases "k < k'")
      case True
      with hd have "\<forall>x\<in>set (map fst gs). k < x" by auto
      then have "map_of gs k = None" by (rule map_of_below_keys)
      with True ne show ?thesis by (auto simp: g)
    next
      case False
      with ne Cons.IH[OF tl] show ?thesis by (auto simp: g)
    qed
  qed
qed

lemma groupby_snoc: "groupby key (df @ [r]) = group_step key (groupby key df) r"
  by (simp add: groupby_def)

lemma groupby_sorted: "sorted_wrt (<) (map fst (groupby key df))"
proof (induction df rule: rev_induct)
  case Nil
  then show ?case by (simp add: groupby_def)
next
  case (snoc r df)
  then show ?case
    by (simp add: groupby_snoc group_step_def add_row_sorted split: option.split)
qed

lemma groupby_map_of:
  "map_of (groupby key df) k =
     (if \<exists>r\<in>set df. key r = Some k then Some (filter (\<lambda>r. key r = Some k) df) else None)"
proof (induction df rule: rev_induct)
  case Nil
  then show ?case by (simp add: groupby_def)
next
  case (snoc r df)
  show ?case
  proof (cases "key r")
    case None
    with snoc show ?thesis by (auto simp: groupby_snoc group_step_def)
  next
    case (Some k')
    with snoc show ?thesis
      by (auto simp: groupby_snoc group_step_def add_row_map_of[OF groupby_sorted])
  qed
qed

lemma present_Nil: "present col [] = []"
  by (simp add: present_def List.map_filter_simps)

lemma present_Cons:
  "present col (r # rs) = (case col r of None \<Rightarrow> present col rs | Some v \<Rightarrow> v # present col rs)"
  by (simp add: present_def List.map_filter_simps split: option.split)

lemma present_set: "set (present col rs) = {v. \<exists>r\<in>set rs. col r = Some v}"
  by (induction rs) (auto simp: present_Nil present_Cons split: option.splits)

lemma present_key2:
  "set (present (key2 f g) df) = {(a, b). \<exists>r\<in>set df. f r = Some a \<and> g r = Some b}"
  by (auto simp: present_set key2_def split: option.splits)

lemma groupby_key_set: "set (map fst (groupby key df)) = set (present key df)"
proof (rule set_eqI)
  fix k
  have "k \<in> set (map fst (groupby key df)) \<longleftrightarrow> map_of (groupby key df) k \<noteq> None"
    by (simp add: map_of_eq_None_iff)
  also have "\<dots> \<longleftrightarrow> (\<exists>r\<in>set df. key r = Some k)"
    by (simp add: groupby_map_of)
  also have "\<dots> \<longleftrightarrow> k \<in> set (present key df)"
    by (simp add: present_set)
  finally show "k \<in> set (map fst (groupby key df)) \<longleftrightarrow> k \<in> set (present key df)" .
qed

lemma groupby_distinct: "distinct (map fst (groupby key df))"
  using groupby_sorted[of key df] strict_sorted_iff by blast

lemma groupby_keys: "map fst (groupby key df) = group_keys key df"
proof -
  have "sorted (map fst (groupby key df))"
    using groupby_sorted[of key df] strict_sorted_iff by blast
  then have "sorted_list_of_set (set (map fst (groupby key df))) = map fst (groupby key df)"
    using groupby_distinct[of key df] by (rule sorted_list_of_set.idem_if_sorted_distinct)
  then show ?thesis
    by (simp only: group_keys_def groupby_key_set)
qed

lemma groupby_rows:
  assumes "(k, rs) \<in> set (groupby key df)"
  shows "rs = group_rows key k df"
proof -
  from assms have "map_of (groupby key df) k = Some rs"
    by (simp add: groupby_distinct)
  then show ?thesis
    by (simp add: groupby_map_of group_rows_def split: if_splits)
qed

lemma agg_groupby:
  "agg f (groupby key df) = map (\<lambda>k. (k, f (group_rows key k df))) (group_keys key df)"
proof -
  have "agg f (groupby key df) =
        map (\<lambda>g. (fst g, f (group_rows key (fst g) df))) (groupby key df)"
    unfolding agg_def by (rule map_cong) (auto dest: groupby_rows)
  also have "\<dots> = map (\<lambda>k. (k, f (group_rows key k df))) (map fst (groupby key df))"
    by (simp add: comp_def)
  finally show ?thesis by (simp only: groupby_keys)
qed

lemma agg_sum_groupby: "agg (col_sum col) (groupby key df) = summed_by key col df"
  by (simp add: agg_groupby summed_by_def)

lemma agg_mean_groupby: "agg (col_mean col) (groupby key df) = mean_by key col df"
  by (simp add: agg_groupby mean_by_def)

section \<open>Properties of the tables\<close>

lemma one_row_summed_by: "one_row_per_key key df (summed_by key col df)"
  by (simp add: one_row_per_key_def summed_by_def group_keys_def comp_def)

lemma one_row_mean_by: "one_row_per_key key df (mean_by key col df)"
  by (simp add: one_row_per_key_def mean_by_def group_keys_def comp_def)







section \<open>The aggregators on the small dataset\<close>

lemma performance_sample:
  "performance sample_view =
     ([((1, ''B''), 1)],
      [((1, ''AA''), Some 100), ((2, ''DL''), Some 50)],
      [diverted],
      [(''CA'', 2), (''TX'', 1)],
      [((''FL'', ''DL''), 1), ((''NY'', ''AA''), 2)])"
  by code_simp

lemma delays_sample:
  "delays sample_view =
     ([((1, ''AA''), Some 10), ((2, ''DL''), Some 30)],
      [((1, ''AA''), None), ((2, ''DL''), Some 5)],
      [((1, ''AA''), None), ((2, ''DL''), None)],
      [((1, ''AA''), None), ((2, ''DL''), None)],
      [((1, ''AA''), None), ((2, ''DL''), None)])"
  by code_simp

lemma select_sample: "select_data sample_data (Some 2005) = Inr sample_view"
  by code_simp

section \<open>The two reports\<close>


section \<open>The claims\<close>



text \<open>
  C3, as the specification has it: with the year unset and a report type chosen, the
  callback returns a "no selection" state and raises nothing. It does not: with report
  type \<^verbatim>\<open>'OPT1'\<close> and no year, on the empty dataset, \<^verbatim>\<open>int(year)\<close> raises
  \<^verbatim>\<open>TypeError\<close>.
\<close>

theorem unset_year_counterexample:
  "make_graph [] (Some ''OPT1'') None ([] :: component list) [] [] [] [] = Inl TypeError"
  by (simp add: make_graph_def select_data_def py_int_def)

text \<open>
  C3, as the code has it: whenever the year is unset, whatever the dataset, the report
  type and the prior outputs, the callback raises \<^verbatim>\<open>TypeError\<close> and returns no chart.
\<close>

theorem unset_year_raises: "make_graph flight_data chart None c1 c2 c3 c4 c5 = Inl TypeError"
  by (simp add: make_graph_def select_data_def py_int_def)

text \<open>
  C4. For every year \<open>Y\<close> from 2005 to 2020 the callback's view is the rows of the
  dataset whose \<^verbatim>\<open>Year\<close> is \<open>Y\<close>, each as often as it occurs and in dataset order;
  every row of the view has \<^verbatim>\<open>Year\<close> \<open>Y\<close>; the charts are built from that view.
\<close>

theorem year_filtered_view:
  assumes "2005 \<le> Y" and "Y \<le> 2020"
  shows "\<exists>view. select_data flight_data (Some Y) = Inr view
           \<and> view = filter (\<lambda>r. Year r = Some Y) flight_data
           \<and> list_all (\<lambda>r. Year r = Some Y) view
           \<and> make_graph flight_data chart (Some Y) c1 c2 c3 c4 c5 =
               Inr (if chart = Some ''OPT1'' then performance_report view
                    else delay_report view)"
  by (simp add: make_graph_def select_data_def py_int_def bool_index_mask list_all_iff)

theorem year_filtered_view_witness:
  "(2005::int) \<le> 2005 \<and> (2005::int) \<le> 2020
     \<and> select_data sample_data (Some 2005) = Inr sample_view
     \<and> sample_view = filter (\<lambda>r. Year r = Some 2005) sample_data
     \<and> list_all (\<lambda>r. Year r = Some 2005) sample_view"
proof -
  have lo: "(2005::int) \<le> 2005" and hi: "(2005::int) \<le> 2020" by simp_all
  from year_filtered_view[OF lo hi, of sample_data None "[] :: component list" "[]" "[]" "[]" "[]"]
  obtain view where "select_data sample_data (Some 2005) = Inr view"
    and "view = filter (\<lambda>r. Year r = Some 2005) sample_data"
    and "list_all (\<lambda>r. Year r = Some 2005) view"
    by blast
  moreover have "filter (\<lambda>r. Year r = Some 2005) sample_data = sample_view"
    by code_simp
  ultimately show ?thesis by simp
qed

text \<open>
  C5, as the specification has it: every aggregate table has a row for each
  combination of its grouping columns that occurs in the view. It does not: the view
  made of the one flown flight has the combination month 1 with no cancellation code,
  and the cancellation table is empty.
\<close>

theorem missing_key_counterexample:
  "(Month flown, CancellationCode flown) = (Some 1, None)
     \<and> fst (performance [flown]) = []"
  by code_simp

text \<open>
  C5, as the code has it: every aggregate table of \<^verbatim>\<open>performance\<close> and \<^verbatim>\<open>delays\<close> has
  exactly one row for each combination of values of its grouping columns that some row
  of the view carries with none of them missing, and no other row; the diversion table
  is the rows whose \<^verbatim>\<open>DivAirportLandings\<close> is not 0.
\<close>

theorem one_row_per_present_key:
  assumes "performance df = (barchart_data, linechart_data, diversion_data, mapchart_data, treemap_data)"
    and "delays df = (carrier, weather, NAS, security, delay)"
  shows "one_row_per_key (key2 Month CancellationCode) df barchart_data
       \<and> one_row_per_key (key2 Month Reporting_Airline) df linechart_data
       \<and> diversion_data = filter (\<lambda>r. DivAirportLandings r \<noteq> Some 0) df
       \<and> one_row_per_key OriginState df mapchart_data
       \<and> one_row_per_key (key2 DestState Reporting_Airline) df treemap_data
       \<and> one_row_per_key (key2 Month Reporting_Airline) df carrier
       \<and> one_row_per_key (key2 Month Reporting_Airline) df weather
       \<and> one_row_per_key (key2 Month Reporting_Airline) df NAS
       \<and> one_row_per_key (key2 Month Reporting_Airline) df security
       \<and> one_row_per_key (key2 Month Reporting_Airline) df delay"
proof -
  from assms(1) have
    "barchart_data = summed_by (key2 Month CancellationCode) Flights df"
    "linechart_data = mean_by (key2 Month Reporting_Airline) AirTime df"
    "diversion_data = filter (\<lambda>r. DivAirportLandings r \<noteq> Some 0) df"
    "mapchart_data = summed_by OriginState Flights df"
    "treemap_data = summed_by (key2 DestState Reporting_Airline) Flights df"
    by (simp_all add: performance_def agg_sum_groupby agg_mean_groupby bool_index_mask)
  moreover from assms(2) have
    "carrier = mean_by (key2 Month Reporting_Airline) CarrierDelay df"
    "weather = mean_by (key2 Month Reporting_Airline) WeatherDelay df"
    "NAS = mean_by (key2 Month Reporting_Airline) NASDelay df"
    "security = mean_by (key2 Month Reporting_Airline) SecurityDelay df"
    "delay = mean_by (key2 Month Reporting_Airline) LateAircraftDelay df"
    by (simp_all add: delays_def agg_mean_groupby)
  ultimately show ?thesis
    by (simp only: one_row_summed_by one_row_mean_by simp_thms)
qed

theorem one_row_per_present_key_witness:
  "performance sample_view =
     ([((1, ''B''), 1)],
      [((1, ''AA''), Some 100), ((2, ''DL''), Some 50)],
      [diverted],
      [(''CA'', 2), (''TX'', 1)],
      [((''FL'', ''DL''), 1), ((''NY'', ''AA''), 2)])
   \<and> delays sample_view =
     ([((1, ''AA''), Some 10), ((2, ''DL''), Some 30)],
      [((1, ''AA''), None), ((2, ''DL''), Some 5)],
      [((1, ''AA''), None), ((2, ''DL''), None)],
      [((1, ''AA''), None), ((2, ''DL''), None)],
      [((1, ''AA''), None), ((2, ''DL''), None)])
   \<and> one_row_per_key (key2 Month CancellationCode) sample_view [((1, ''B''), 1::real)]
   \<and> one_row_per_key OriginState sample_view [(''CA'', 2::real), (''TX'', 1)]
   \<and> one_row_per_key (key2 Month Reporting_Airline) sample_view
         [((1, ''AA''), None :: real option), ((2, ''DL''), Some 5)]"
  using one_row_per_present_key[OF performance_sample delays_sample]
    performance_sample delays_sample by simp








text \<open>
  C9. The callback's result does not depend on the prior chart outputs it is handed:
  two calls with the same dataset, report type and year return the same result (the
  same five charts, or the same exception) whatever the five prior outputs are.
\<close>

theorem prior_outputs_unused:
  "make_graph flight_data chart year c1 c2 c3 c4 c5 =
   make_graph flight_data chart year d1 d2 d3 d4 d5"
  by (simp add: make_graph_def)



end
